theory Spec2Isabelle
  imports Main
begin

section \<open>Strings of the Go standard library\<close>

text \<open>
  A Go string is a sequence of bytes; it is modelled as a \<open>string\<close> (a list of
  8-bit characters). \<open>strings.HasPrefix(s, prefix)\<close> is
  \<^verbatim>\<open>len(s) >= len(prefix) && s[:len(prefix)] == prefix\<close>.
\<close>

definition strings_HasPrefix :: "string \<Rightarrow> string \<Rightarrow> bool" where
  "strings_HasPrefix s pre = (length pre \<le> length s \<and> take (length pre) s = pre)"

text \<open>
  \<open>strings.Contains(s, substr)\<close> is \<open>strings.Index(s, substr) >= 0\<close>: some
  position of \<open>s\<close> (the end included, for the empty \<open>substr\<close>) starts a copy of
  \<open>substr\<close>.
\<close>

primrec strings_Contains :: "string \<Rightarrow> string \<Rightarrow> bool" where
  "strings_Contains [] sub = (sub = [])"
| "strings_Contains (c # cs) sub = (strings_HasPrefix (c # cs) sub \<or> strings_Contains cs sub)"

text \<open>
  \<open>strings.ToLower\<close> on the letters \<open>A\<close> to \<open>Z\<close>; every other byte is kept. This is
  what Go computes for a string of ASCII characters. On other input Go also puts the
  letters outside ASCII in lower case, which the model leaves as they are; the
  ASCII letters of the result, the only ones a keyword of \<open>detectTool\<close> can meet,
  are the same unless the string holds U+0130, whose lower case is \<open>i\<close>.
\<close>

definition toLowerByte :: "char \<Rightarrow> char" where
  "toLowerByte c =
     (case map_of (zip ''ABCDEFGHIJKLMNOPQRSTUVWXYZ'' ''abcdefghijklmnopqrstuvwxyz'') c of
        Some l \<Rightarrow> l
      | None \<Rightarrow> c)"

definition strings_ToLower :: "string \<Rightarrow> string" where
  "strings_ToLower s = map toLowerByte s"

section \<open>cmd/agent-deck/main.go: detectTool\<close>

text \<open>
  \<^verbatim>\<open>
  func detectTool(cmd string) string {
      cmd = strings.ToLower(cmd)
      switch {
      case strings.Contains(cmd, "claude"): return "claude"
      case strings.Contains(cmd, "aider"):  return "aider"
      case strings.Contains(cmd, "gemini"): return "gemini"
      case strings.Contains(cmd, "codex"):  return "codex"
      case strings.Contains(cmd, "cursor"): return "cursor"
      default:                              return "shell"
      }
  }
  \<close>
\<close>

definition detectTool :: "string \<Rightarrow> string" where
  "detectTool cmd0 =
     (let cmd = strings_ToLower cmd0 in
      if strings_Contains cmd ''claude'' then ''claude''
      else if strings_Contains cmd ''aider'' then ''aider''
      else if strings_Contains cmd ''gemini'' then ''gemini''
      else if strings_Contains cmd ''codex'' then ''codex''
      else if strings_Contains cmd ''cursor'' then ''cursor''
      else ''shell'')"




section \<open>Paths of the Go standard library (path/filepath on Unix)\<close>

text \<open>
  \<open>strings.Join(elems, sep)\<close>.
\<close>

fun strings_Join :: "string list \<Rightarrow> string \<Rightarrow> string" where
  "strings_Join [] sep = []"
| "strings_Join [x] sep = x"
| "strings_Join (x # y # zs) sep = x @ sep @ strings_Join (y # zs) sep"

text \<open>
  The elements of a path between its separators; \<open>a//b\<close> has the elements
  \<open>a\<close>, the empty element and \<open>b\<close>.
\<close>

fun path_elements :: "string \<Rightarrow> string list" where
  "path_elements [] = [[]]"
| "path_elements (c # cs) =
     (if c = CHR ''/'' then [] # path_elements cs
      else (case path_elements cs of
              [] \<Rightarrow> [[c]]
            | w # ws \<Rightarrow> (c # w) # ws))"

text \<open>
  \<open>filepath.Clean\<close>, element by element as the library's loop reads the path: an
  empty element and \<open>.\<close> are dropped; \<open>..\<close> removes the element written before it
  when there is one that is not itself \<open>..\<close>, is dropped at the root of a rooted
  path, and is kept otherwise; any other element is written. The result of an empty
  path, and of a path that cleans to nothing, is \<open>.\<close>.
\<close>

definition clean_element :: "bool \<Rightarrow> string list \<Rightarrow> string \<Rightarrow> string list" where
  "clean_element rooted out el =
     (if el = [] \<or> el = ''.'' then out
      else if el = ''..'' then
        (if out \<noteq> [] \<and> last out \<noteq> ''..'' then butlast out
         else if \<not> rooted then out @ [''..'']
         else out)
      else out @ [el])"

definition filepath_Clean :: "string \<Rightarrow> string" where
  "filepath_Clean path =
     (if path = [] then ''.''
      else
        (let rooted = (hd path = CHR ''/'');
             out = foldl (clean_element rooted) [] (path_elements path);
             cleaned = (if rooted then ''/'' else []) @ strings_Join out ''/''
         in if cleaned = [] then ''.'' else cleaned))"

text \<open>
  \<open>filepath.Join\<close>: the elements from the first non-empty one on, joined by the
  separator and cleaned; the empty string when every element is empty.
\<close>

definition filepath_Join :: "string list \<Rightarrow> string" where
  "filepath_Join elem =
     (case dropWhile (\<lambda>e. e = []) elem of
        [] \<Rightarrow> []
      | e # es \<Rightarrow> filepath_Clean (strings_Join (e # es) ''/''))"

text \<open>
  \<open>filepath.Dir\<close>: the path up to and including its last separator, cleaned.
  \<open>filepath.Base\<close>: the last element of the path, trailing separators dropped.
\<close>

definition filepath_Dir :: "string \<Rightarrow> string" where
  "filepath_Dir path = filepath_Clean (rev (dropWhile (\<lambda>c. c \<noteq> CHR ''/'') (rev path)))"

definition filepath_Base :: "string \<Rightarrow> string" where
  "filepath_Base path =
     (if path = [] then ''.''
      else
        (let stripped = rev (dropWhile (\<lambda>c. c = CHR ''/'') (rev path));
             base = rev (takeWhile (\<lambda>c. c \<noteq> CHR ''/'') (rev stripped))
         in if base = [] then ''/'' else base))"

section \<open>The data model\<close>

type_synonym path = string
type_synonym bytes = string

text \<open>A \<open>time.Time\<close>, as an instant.\<close>

type_synonym time = int

text \<open>
  Modelled from the spec: the type \<open>Status\<close> is declared in a file of package
  session that is not among the sources. The spec (section 3) gives the enumeration
  Running, Waiting, Idle, Error; \<open>statusToString\<close> switches on the four constants
  and has a default branch, so a fifth alternative stands for any other value that a
  snapshot file may hold.
\<close>

datatype Status = StatusRunning | StatusWaiting | StatusIdle | StatusError | StatusOther string

text \<open>
  Modelled from the spec: \<open>tmux.Session\<close> and \<open>tmux.ReconnectSessionWithStatus\<close>
  belong to package tmux, which is not among the sources. The spec (section 4.1):
  \<open>reconnect(name, title, workDir, command, priorStatus)\<close> binds to a pre-existing
  external session without creating one, preserving the caller-supplied prior status.
  The handle keeps the five arguments; \<open>storage.go\<close> reads its \<open>Name\<close>.
\<close>

record Session =
  Name :: string
  DisplayName :: string
  WorkDir :: string
  SessionCommand :: string
  PreviousStatus :: string

definition ReconnectSessionWithStatus ::
  "string \<Rightarrow> string \<Rightarrow> string \<Rightarrow> string \<Rightarrow> string \<Rightarrow> Session" where
  "ReconnectSessionWithStatus name title workDir command previousStatus =
     \<lparr>Name = name, DisplayName = title, WorkDir = workDir, SessionCommand = command,
      PreviousStatus = previousStatus\<rparr>"

text \<open>
  Modelled from the spec: the struct \<open>Instance\<close> is declared outside the sources
  (spec, section 3). Its fields are the ones \<open>SaveWithGroups\<close> reads and
  \<open>LoadWithGroups\<close> writes; \<open>tmuxSession\<close> is a pointer that may be nil.
\<close>

record Instance =
  ID :: string
  Title :: string
  ProjectPath :: string
  GroupPath :: string
  Command :: string
  Tool :: string
  Status :: Status
  CreatedAt :: time
  tmuxSession :: "Session option"

text \<open>
  Modelled from the spec: \<open>Group\<close> and \<open>GroupTree\<close> are declared outside the
  sources (spec, section 3); \<open>SaveWithGroups\<close> reads \<open>GroupList\<close> and, of each
  group, \<open>Name\<close>, \<open>Path\<close>, \<open>Expanded\<close> and \<open>Order\<close>.
\<close>

record Group =
  GroupName :: string
  Path :: string
  Expanded :: bool
  Order :: int

record GroupTree =
  GroupList :: "Group list"

text \<open>
  storage.go: \<open>InstanceData\<close>, \<open>GroupData\<close> and \<open>StorageData\<close>, the
  serializable records. Each field carries the name of its JSON key.
\<close>

record InstanceData =
  json_id :: string
  json_title :: string
  json_project_path :: string
  json_group_path :: string
  json_command :: string
  json_tool :: string
  json_status :: Status
  json_created_at :: time
  json_tmux_session :: string

record GroupData =
  json_name :: string
  json_path :: string
  json_expanded :: bool
  json_order :: int

record StorageData =
  json_instances :: "InstanceData list"
  json_groups :: "GroupData list"
  json_updated_at :: time

record Storage =
  storage_path :: path

section \<open>The environment of the program\<close>

text \<open>
  What the program reads from outside the sources: the process environment and the
  clock; \<open>encoding/json\<close> on \<open>StorageData\<close> (\<open>None\<close> is its error); and the
  functions of packages session and tmux that the sources call and do not define.
  Of those functions the model keeps the type and nothing else, except
  \<open>Instance.UpdateStatus\<close> below.
\<close>

record env =
  environ :: "string \<Rightarrow> string option"
  time_Now :: time
  json_MarshalIndent :: "StorageData \<Rightarrow> bytes option"
  json_Unmarshal :: "bytes \<Rightarrow> StorageData option"
  extractGroupPath :: "string \<Rightarrow> string"
  GetStatus :: "Session \<Rightarrow> Status"
  Exists :: "Instance \<Rightarrow> bool"
  NewInstance :: "string \<Rightarrow> string \<Rightarrow> Instance"
  NewInstanceWithGroup :: "string \<Rightarrow> string \<Rightarrow> string \<Rightarrow> Instance"
  NewGroupTreeWithGroups :: "Instance list \<Rightarrow> GroupData list \<Rightarrow> GroupTree"
  CreateGroup :: "GroupTree \<Rightarrow> string \<Rightarrow> GroupTree"

text \<open>
  Modelled from the spec: \<open>Instance.UpdateStatus\<close> is not among the sources. The
  spec (section 4.4): an instance with a bound external session has its status
  recomputed by a single detector pass; the pass is \<open>GetStatus\<close> of the environment.
\<close>

definition UpdateStatus :: "env \<Rightarrow> Instance \<Rightarrow> Instance" where
  "UpdateStatus e inst =
     (case tmuxSession inst of
        None \<Rightarrow> inst
      | Some sess \<Rightarrow> inst\<lparr>Status := GetStatus e sess\<rparr>)"

text \<open>
  \<open>os.UserHomeDir\<close> on Unix: the value of \<open>HOME\<close> when it is set and not empty,
  an error otherwise.
\<close>

definition os_UserHomeDir :: "env \<Rightarrow> string option" where
  "os_UserHomeDir e =
     (case environ e ''HOME'' of
        None \<Rightarrow> None
      | Some v \<Rightarrow> if v = [] then None else Some v)"

subsection \<open>Files\<close>

text \<open>
  The regular files of the file system, by path. Every call of package os can fail
  for a reason the program does not control: the scenario of a run says which calls
  do. \<open>os.Stat\<close> of a path that has no file reports that it does not exist; of
  a file that is there it gives no error, or some other error when it fails. A
  failed write leaves its target untouched or with other content (a file cut short);
  a failed rename changes nothing, and a rename of a file that is not there fails.
\<close>

type_synonym filesystem = "path \<Rightarrow> bytes option"

datatype write_outcome = WriteOk | WriteFailUntouched | WriteFailPartial bytes

record faults =
  mkdir_fails :: bool
  load_stat_fails :: bool
  load_read_fails :: bool
  write_tmp :: write_outcome
  save_stat_fails :: bool
  copy_read_fails :: bool
  write_bak :: write_outcome
  rename_fails :: bool

datatype stat_result = StatOk | StatNotExist | StatError

definition os_Stat :: "bool \<Rightarrow> path \<Rightarrow> filesystem \<Rightarrow> stat_result" where
  "os_Stat fails p files =
     (if files p = None then StatNotExist else if fails then StatError else StatOk)"

definition os_ReadFile :: "bool \<Rightarrow> path \<Rightarrow> filesystem \<Rightarrow> bytes option" where
  "os_ReadFile fails p files = (if fails then None else files p)"

definition os_WriteFile ::
  "write_outcome \<Rightarrow> path \<Rightarrow> bytes \<Rightarrow> filesystem \<Rightarrow> bool \<times> filesystem" where
  "os_WriteFile outcome p data files =
     (case outcome of
        WriteOk \<Rightarrow> (True, files(p \<mapsto> data))
      | WriteFailUntouched \<Rightarrow> (False, files)
      | WriteFailPartial left \<Rightarrow> (False, files(p \<mapsto> left)))"

definition os_Rename :: "bool \<Rightarrow> path \<Rightarrow> path \<Rightarrow> filesystem \<Rightarrow> bool \<times> filesystem" where
  "os_Rename fails old new files =
     (case files old of
        None \<Rightarrow> (False, files)
      | Some data \<Rightarrow>
          if fails then (False, files) else (True, (files(old := None))(new \<mapsto> data)))"

text \<open>What a run does outside the process, in order.\<close>

datatype event =
    EvMkdirAll path
  | EvStat path
  | EvReadFile path
  | EvWriteFile path bytes
  | EvRename path path
  | EvReconnect string string string string string
  | EvEnableMouseMode string
  | EvUpdateStatus string
  | EvKill string

datatype error =
    FailedToGetHomeDirectory
  | FailedToCreateStorageDirectory
  | FailedToMarshalJSON
  | FailedToWriteTempFile
  | FailedToFinalizeSave
  | FailedToReadFile
  | FailedToUnmarshalJSON

section \<open>internal/session/storage.go\<close>

text \<open>
  \<^verbatim>\<open>
  func expandTilde(path string) string {
      if strings.HasPrefix(path, "~/") {
          home, err := os.UserHomeDir()
          if err == nil {
              return filepath.Join(home, path[2:])
          }
      }
      return path
  }
  \<close>
\<close>

definition expandTilde :: "env \<Rightarrow> string \<Rightarrow> string" where
  "expandTilde e path =
     (if strings_HasPrefix path ''~/'' then
        (case os_UserHomeDir e of
           Some home \<Rightarrow> filepath_Join [home, drop 2 path]
         | None \<Rightarrow> path)
      else path)"

text \<open>
  \<open>GetStoragePath\<close>: the home directory joined with \<open>.agent-deck\<close> and
  \<open>sessions.json\<close>; an error when the home directory is not known.
\<close>

definition GetStoragePath :: "env \<Rightarrow> error + path" where
  "GetStoragePath e =
     (case os_UserHomeDir e of
        None \<Rightarrow> Inl FailedToGetHomeDirectory
      | Some homeDir \<Rightarrow> Inr (filepath_Join [homeDir, ''.agent-deck'', ''sessions.json'']))"

text \<open>
  \<open>NewStorage\<close>: the storage path, and its directory created (\<open>os.MkdirAll\<close>).
\<close>

definition NewStorage :: "env \<Rightarrow> faults \<Rightarrow> (error + Storage) \<times> event list" where
  "NewStorage e flt =
     (case GetStoragePath e of
        Inl err \<Rightarrow> (Inl err, [])
      | Inr p \<Rightarrow>
          if mkdir_fails flt then (Inl FailedToCreateStorageDirectory, [EvMkdirAll (filepath_Dir p)])
          else (Inr \<lparr>storage_path = p\<rparr>, [EvMkdirAll (filepath_Dir p)]))"

text \<open>
  \<open>statusToString\<close>: \<open>active\<close> for Running, \<open>waiting\<close> for Waiting, \<open>idle\<close>
  for Idle, \<open>waiting\<close> for Error ("Treat errors as needing attention") and
  \<open>waiting\<close> by default.
\<close>

fun statusToString :: "Status \<Rightarrow> string" where
  "statusToString StatusRunning = ''active''"
| "statusToString StatusWaiting = ''waiting''"
| "statusToString StatusIdle = ''idle''"
| "statusToString StatusError = ''waiting''"
| "statusToString (StatusOther v) = ''waiting''"

text \<open>
  The first loop of \<open>SaveWithGroups\<close>: the serializable form of an instance, with
  the name of its session, or the empty string when \<open>tmuxSession\<close> is nil. The
  second loop: the serializable form of a group.
\<close>

definition tmuxName :: "Instance \<Rightarrow> string" where
  "tmuxName inst = (case tmuxSession inst of None \<Rightarrow> [] | Some sess \<Rightarrow> Name sess)"

definition toInstanceData :: "Instance \<Rightarrow> InstanceData" where
  "toInstanceData inst =
     \<lparr>json_id = ID inst, json_title = Title inst, json_project_path = ProjectPath inst,
      json_group_path = GroupPath inst, json_command = Command inst, json_tool = Tool inst,
      json_status = Status inst, json_created_at = CreatedAt inst,
      json_tmux_session = tmuxName inst\<rparr>"

definition toGroupData :: "Group \<Rightarrow> GroupData" where
  "toGroupData g =
     \<lparr>json_name = GroupName g, json_path = Path g, json_expanded = Expanded g,
      json_order = Order g\<rparr>"

definition toStorageData :: "env \<Rightarrow> Instance list \<Rightarrow> GroupTree option \<Rightarrow> StorageData" where
  "toStorageData e instances groupTree =
     \<lparr>json_instances = map toInstanceData instances,
      json_groups = (case groupTree of None \<Rightarrow> [] | Some gt \<Rightarrow> map toGroupData (GroupList gt)),
      json_updated_at = time_Now e\<rparr>"

text \<open>
  \<open>copyFile(src, dst)\<close>: read \<open>src\<close>, and write what was read to \<open>dst\<close>.
\<close>

definition copyFile ::
  "faults \<Rightarrow> path \<Rightarrow> path \<Rightarrow> filesystem \<Rightarrow> bool \<times> filesystem \<times> event list" where
  "copyFile flt src dst files =
     (case os_ReadFile (copy_read_fails flt) src files of
        None \<Rightarrow> (False, files, [EvReadFile src])
      | Some data \<Rightarrow>
          (case os_WriteFile (write_bak flt) dst data files of
             (ok, files') \<Rightarrow> (ok, files', [EvReadFile src, EvWriteFile dst data])))"

text \<open>
  \<open>SaveWithGroups\<close>: marshal; step 1, write the temporary file; step 2, when
  \<open>os.Stat\<close> of the canonical path gives no error, copy the canonical file to the
  backup path, ignoring the copy's error; step 3, rename the temporary file onto the
  canonical path. The result is the error returned (\<open>None\<close> is nil), the files
  after the call, and what the call did.
\<close>

definition SaveWithGroups ::
  "env \<Rightarrow> faults \<Rightarrow> Storage \<Rightarrow> Instance list \<Rightarrow> GroupTree option \<Rightarrow> filesystem
     \<Rightarrow> error option \<times> filesystem \<times> event list" where
  "SaveWithGroups e flt s instances groupTree files =
     (case json_MarshalIndent e (toStorageData e instances groupTree) of
        None \<Rightarrow> (Some FailedToMarshalJSON, files, [])
      | Some jsonData \<Rightarrow>
          (let tmpPath = storage_path s @ ''.tmp'';
               bakPath = storage_path s @ ''.bak''
           in case os_WriteFile (write_tmp flt) tmpPath jsonData files of
                (written, files1) \<Rightarrow>
                  if \<not> written then
                    (Some FailedToWriteTempFile, files1, [EvWriteFile tmpPath jsonData])
                  else
                    (case (if os_Stat (save_stat_fails flt) (storage_path s) files1 = StatOk
                           then (case copyFile flt (storage_path s) bakPath files1 of
                                   (copied, files', evs) \<Rightarrow> (files', evs))
                           else (files1, [])) of
                       (files2, copy_evs) \<Rightarrow>
                         (case os_Rename (rename_fails flt) tmpPath (storage_path s) files2 of
                            (renamed, files3) \<Rightarrow>
                              (if \<not> renamed then Some FailedToFinalizeSave else None,
                               files3,
                               [EvWriteFile tmpPath jsonData, EvStat (storage_path s)]
                                 @ copy_evs @ [EvRename tmpPath (storage_path s)])))))"

text \<open>
  The body of the loop of \<open>LoadWithGroups\<close>, for one persisted instance: reconnect
  its session when the stored name is not empty, with \<open>statusToString\<close> of the
  stored status, and enable the mouse mode; take the stored group path, or
  \<open>extractGroupPath\<close> of the project path when it is empty; expand the tilde of
  the project path; update the status when a session was bound.
\<close>

definition loadInstance :: "env \<Rightarrow> InstanceData \<Rightarrow> Instance \<times> event list" where
  "loadInstance e instData =
     (let previousStatus = statusToString (json_status instData);
          tmuxSess =
            (if json_tmux_session instData \<noteq> [] then
               Some (ReconnectSessionWithStatus (json_tmux_session instData) (json_title instData)
                       (json_project_path instData) (json_command instData) previousStatus)
             else None);
          groupPath =
            (if json_group_path instData = [] then extractGroupPath e (json_project_path instData)
             else json_group_path instData);
          projectPath = expandTilde e (json_project_path instData);
          inst = \<lparr>ID = json_id instData, Title = json_title instData, ProjectPath = projectPath,
                  GroupPath = groupPath, Command = json_command instData,
                  Tool = json_tool instData, Status = json_status instData,
                  CreatedAt = json_created_at instData, tmuxSession = tmuxSess\<rparr>
      in if tmuxSess \<noteq> None then
           (UpdateStatus e inst,
            [EvReconnect (json_tmux_session instData) (json_title instData)
               (json_project_path instData) (json_command instData) previousStatus,
             EvEnableMouseMode (json_tmux_session instData),
             EvUpdateStatus (json_tmux_session instData)])
         else (inst, []))"

text \<open>
  \<open>LoadWithGroups\<close>: an empty list, no groups and no error when \<open>os.Stat\<close> says
  that the file does not exist; otherwise read the file, unmarshal it and convert
  each instance in order. The groups are returned as they were read.
\<close>

definition LoadWithGroups ::
  "env \<Rightarrow> faults \<Rightarrow> Storage \<Rightarrow> filesystem
     \<Rightarrow> (error + Instance list \<times> GroupData list) \<times> event list" where
  "LoadWithGroups e flt s files =
     (if os_Stat (load_stat_fails flt) (storage_path s) files = StatNotExist then
        (Inr ([], []), [EvStat (storage_path s)])
      else
        (case os_ReadFile (load_read_fails flt) (storage_path s) files of
           None \<Rightarrow> (Inl FailedToReadFile, [EvStat (storage_path s), EvReadFile (storage_path s)])
         | Some jsonData \<Rightarrow>
             (case json_Unmarshal e jsonData of
                None \<Rightarrow>
                  (Inl FailedToUnmarshalJSON,
                   [EvStat (storage_path s), EvReadFile (storage_path s)])
              | Some data \<Rightarrow>
                  (let loaded = map (loadInstance e) (json_instances data)
                   in (Inr (map fst loaded, json_groups data),
                       [EvStat (storage_path s), EvReadFile (storage_path s)]
                         @ concat (map snd loaded))))))"

section \<open>cmd/agent-deck/main.go: add and remove\<close>

text \<open>What a command prints, and the status it exits with.\<close>

datatype message =
    MsgIdentifierRequired
  | MsgStorageInitFailed error
  | MsgLoadFailed error
  | MsgAlreadyExists string string
  | MsgSaveFailed error
  | MsgAdded string string string string
  | MsgNotFound string
  | MsgRemoved string

type_synonym outcome = "nat \<times> message list"

definition mergeFlags :: "string \<Rightarrow> string \<Rightarrow> string" where
  "mergeFlags long short = (if long \<noteq> [] then long else short)"

record add_flags =
  flag_title :: string
  flag_t :: string
  flag_group :: string
  flag_g :: string
  flag_cmd :: string
  flag_c :: string

text \<open>
  \<open>handleAdd\<close>, from the point where the flags are parsed and the path argument is
  resolved to an absolute path of an existing directory (\<open>path\<close>): merge the flags,
  default the title to the folder name, load the sessions, exit with status 0 at the
  first instance that has the same project path, otherwise create the instance, set
  its command and tool, append it, rebuild the group tree and save.
\<close>

definition handleAdd ::
  "env \<Rightarrow> faults \<Rightarrow> add_flags \<Rightarrow> path \<Rightarrow> filesystem \<Rightarrow> outcome \<times> filesystem \<times> event list" where
  "handleAdd e flt flags path files =
     (let sessionTitle0 = mergeFlags (flag_title flags) (flag_t flags);
          sessionGroup = mergeFlags (flag_group flags) (flag_g flags);
          sessionCommand = mergeFlags (flag_cmd flags) (flag_c flags);
          sessionTitle = (if sessionTitle0 = [] then filepath_Base path else sessionTitle0)
      in case NewStorage e flt of
           (Inl err, evs0) \<Rightarrow> ((1, [MsgStorageInitFailed err]), files, evs0)
         | (Inr storage, evs0) \<Rightarrow>
             (case LoadWithGroups e flt storage files of
                (Inl err, evs1) \<Rightarrow> ((1, [MsgLoadFailed err]), files, evs0 @ evs1)
              | (Inr (instances, groups), evs1) \<Rightarrow>
                  (case find (\<lambda>inst. ProjectPath inst = path) instances of
                     Some inst \<Rightarrow>
                       ((0, [MsgAlreadyExists (Title inst) (ID inst)]), files, evs0 @ evs1)
                   | None \<Rightarrow>
                       (let created =
                              (if sessionGroup \<noteq> [] then
                                 NewInstanceWithGroup e sessionTitle path sessionGroup
                               else NewInstance e sessionTitle path);
                            newInstance =
                              (if sessionCommand \<noteq> [] then
                                 created\<lparr>Command := sessionCommand,
                                         Tool := detectTool sessionCommand\<rparr>
                               else created);
                            instances' = instances @ [newInstance];
                            built = NewGroupTreeWithGroups e instances' groups;
                            groupTree =
                              (if GroupPath newInstance \<noteq> [] then
                                 CreateGroup e built (GroupPath newInstance)
                               else built)
                        in case SaveWithGroups e flt storage instances' (Some groupTree) files of
                             (Some err, files', evs2) \<Rightarrow>
                               ((1, [MsgSaveFailed err]), files', evs0 @ evs1 @ evs2)
                           | (None, files', evs2) \<Rightarrow>
                               ((0, [MsgAdded sessionTitle path (GroupPath newInstance)
                                       (ID newInstance)]),
                                files', evs0 @ evs1 @ evs2)))))"



section \<open>Statements of the claims, and a concrete environment\<close>

text \<open>Saving, and then loading what was saved.\<close>

definition save_then_load ::
  "env \<Rightarrow> faults \<Rightarrow> Storage \<Rightarrow> Instance list \<Rightarrow> GroupTree option \<Rightarrow> filesystem
     \<Rightarrow> error + Instance list \<times> GroupData list" where
  "save_then_load e flt s instances groupTree files =
     (case SaveWithGroups e flt s instances groupTree files of
        (Some err, files', evs) \<Rightarrow> Inl err
      | (None, files', evs) \<Rightarrow> fst (LoadWithGroups e flt s files'))"

text \<open>
  An instance comes back from a save and a load with the fields it had when its
  project path does not start with \<open>~/\<close>, its group path is not empty, and it has
  no session name or the detector pass on the reconnected session reports the status
  it had.
\<close>

definition survives_reload :: "env \<Rightarrow> Instance \<Rightarrow> bool" where
  "survives_reload e inst =
     (\<not> strings_HasPrefix (ProjectPath inst) ''~/'' \<and> GroupPath inst \<noteq> [] \<and>
      (tmuxName inst = [] \<or>
       GetStatus e (ReconnectSessionWithStatus (tmuxName inst) (Title inst) (ProjectPath inst)
                      (Command inst) (statusToString (Status inst))) = Status inst))"


text \<open>
  What a load does for one persisted instance that has a session name: reconnect
  with the string of the stored status, enable the mouse mode, then run the detector.
\<close>

definition reconnect_events :: "InstanceData \<Rightarrow> event list" where
  "reconnect_events d =
     (if json_tmux_session d = [] then []
      else [EvReconnect (json_tmux_session d) (json_title d) (json_project_path d)
              (json_command d) (statusToString (json_status d)),
            EvEnableMouseMode (json_tmux_session d),
            EvUpdateStatus (json_tmux_session d)])"

text \<open>
  A concrete environment for the examples: the home directory is \<open>/home/u\<close>; JSON is
  a finite table of texts and the snapshots they stand for; the detector reports
  Idle; an instance exists when it has a session.
\<close>

definition ex_env :: "(bytes \<times> StorageData) list \<Rightarrow> env" where
  "ex_env table =
     \<lparr>environ = [''HOME'' \<mapsto> ''/home/u''],
      time_Now = 0,
      json_MarshalIndent = (\<lambda>d. map_of (map (\<lambda>(text, snapshot). (snapshot, text)) table) d),
      json_Unmarshal = map_of table,
      extractGroupPath = (\<lambda>p. ''projects''),
      GetStatus = (\<lambda>sess. StatusIdle),
      Exists = (\<lambda>inst. tmuxSession inst \<noteq> None),
      NewInstance = (\<lambda>title p.
        \<lparr>ID = ''new'', Title = title, ProjectPath = p, GroupPath = ''projects'', Command = [],
         Tool = ''shell'', Status = StatusIdle, CreatedAt = 0, tmuxSession = None\<rparr>),
      NewInstanceWithGroup = (\<lambda>title p g.
        \<lparr>ID = ''new'', Title = title, ProjectPath = p, GroupPath = g, Command = [],
         Tool = ''shell'', Status = StatusIdle, CreatedAt = 0, tmuxSession = None\<rparr>),
      NewGroupTreeWithGroups = (\<lambda>instances groups. \<lparr>GroupList = []\<rparr>),
      CreateGroup = (\<lambda>tree p. tree)\<rparr>"

definition ex_storage :: Storage where
  "ex_storage = \<lparr>storage_path = ''/home/u/.agent-deck/sessions.json''\<rparr>"

definition no_faults :: faults where
  "no_faults =
     \<lparr>mkdir_fails = False, load_stat_fails = False, load_read_fails = False,
      write_tmp = WriteOk, save_stat_fails = False, copy_read_fails = False,
      write_bak = WriteOk, rename_fails = False\<rparr>"

definition ex_instance :: "string \<Rightarrow> string \<Rightarrow> string \<Rightarrow> Status \<Rightarrow> string \<Rightarrow> InstanceData" where
  "ex_instance i title project st session =
     \<lparr>json_id = i, json_title = title, json_project_path = project,
      json_group_path = ''work'', json_command = ''claude'', json_tool = ''claude'',
      json_status = st, json_created_at = 0, json_tmux_session = session\<rparr>"

definition ex_snapshot :: "InstanceData list \<Rightarrow> StorageData" where
  "ex_snapshot ds = \<lparr>json_instances = ds, json_groups = [], json_updated_at = 0\<rparr>"

text \<open>
  The files of the examples: the canonical file with the given text, and nothing
  else. An instance of the examples in memory, a group, and the flags of an
  \<open>add\<close> without options.
\<close>

definition ex_files :: "bytes \<Rightarrow> filesystem" where
  "ex_files content = [''/home/u/.agent-deck/sessions.json'' \<mapsto> content]"

definition ex_inst :: "string \<Rightarrow> string \<Rightarrow> string \<Rightarrow> Status \<Rightarrow> Session option \<Rightarrow> Instance" where
  "ex_inst i title project st sess =
     \<lparr>ID = i, Title = title, ProjectPath = project, GroupPath = ''work'',
      Command = ''claude'', Tool = ''claude'', Status = st, CreatedAt = 0,
      tmuxSession = sess\<rparr>"

definition ex_group :: Group where
  "ex_group = \<lparr>GroupName = ''work'', Path = ''work'', Expanded = True, Order = 0\<rparr>"

definition ex_group_data :: GroupData where
  "ex_group_data =
     \<lparr>json_name = ''work'', json_path = ''work'', json_expanded = True, json_order = 0\<rparr>"

definition ex_flags :: add_flags where
  "ex_flags =
     \<lparr>flag_title = [], flag_t = [], flag_group = [], flag_g = [], flag_cmd = [], flag_c = []\<rparr>"

section \<open>Properties of the string helpers\<close>





section \<open>Properties of the storage functions\<close>

lemma filepath_Clean_rooted:
  assumes "p \<noteq> []" "hd p = CHR ''/''"
  shows "filepath_Clean p \<noteq> [] \<and> hd (filepath_Clean p) = CHR ''/''"
  using assms by (simp add: filepath_Clean_def Let_def)

lemma filepath_Join_rooted:
  assumes "home \<noteq> []" "hd home = CHR ''/''"
  shows "filepath_Join [home, rest] \<noteq> [] \<and> hd (filepath_Join [home, rest]) = CHR ''/''"
proof -
  have j: "filepath_Join [home, rest] = filepath_Clean (home @ ''/'' @ rest)"
    using assms(1) by (simp add: filepath_Join_def)
  have "home @ ''/'' @ rest \<noteq> []" "hd (home @ ''/'' @ rest) = CHR ''/''"
    using assms by simp_all
  then show ?thesis
    unfolding j by (rule filepath_Clean_rooted)
qed

lemma os_UserHomeDir_other_var:
  "k \<noteq> ''HOME'' \<Longrightarrow> os_UserHomeDir (e\<lparr>environ := (environ e)(k := v)\<rparr>) = os_UserHomeDir e"
  by (simp add: os_UserHomeDir_def)

lemma os_UserHomeDir_not_empty: "os_UserHomeDir e = Some home \<Longrightarrow> home \<noteq> []"
  by (auto simp: os_UserHomeDir_def split: option.splits if_splits)

text \<open>A load of a file that is there, can be read and parses.\<close>

lemma LoadWithGroups_ok:
  assumes "files (storage_path s) = Some content" "\<not> load_read_fails flt"
    "json_Unmarshal e content = Some data"
  shows "LoadWithGroups e flt s files =
    (Inr (map (\<lambda>d. fst (loadInstance e d)) (json_instances data), json_groups data),
     [EvStat (storage_path s), EvReadFile (storage_path s)]
       @ concat (map (\<lambda>d. snd (loadInstance e d)) (json_instances data)))"
  using assms
  by (simp add: LoadWithGroups_def os_Stat_def os_ReadFile_def Let_def comp_def)

lemma snd_loadInstance: "snd (loadInstance e d) = reconnect_events d"
  by (simp add: loadInstance_def reconnect_events_def Let_def)

lemma ProjectPath_loadInstance:
  "ProjectPath (fst (loadInstance e d)) = expandTilde e (json_project_path d)"
  by (simp add: loadInstance_def Let_def UpdateStatus_def)

lemma reload_instance:
  assumes "survives_reload e inst"
  shows "toInstanceData (fst (loadInstance e (toInstanceData inst))) = toInstanceData inst"
proof (cases "tmuxName inst = []")
  case True
  with assms show ?thesis
    by (simp add: survives_reload_def loadInstance_def toInstanceData_def Let_def
        expandTilde_def tmuxName_def)
next
  case False
  with assms show ?thesis
    by (simp add: survives_reload_def loadInstance_def toInstanceData_def Let_def
        expandTilde_def tmuxName_def UpdateStatus_def ReconnectSessionWithStatus_def)
qed

text \<open>A save whose temporary write and rename succeed, whatever the backup does.\<close>

lemma SaveWithGroups_success:
  assumes "json_MarshalIndent e (toStorageData e instances gt) = Some jsonData"
    "write_tmp flt = WriteOk" "\<not> rename_fails flt"
  shows "\<exists>files' evs. SaveWithGroups e flt s instances gt files = (None, files', evs) \<and>
           files' (storage_path s) = Some jsonData"
proof (cases "files (storage_path s)")
  case None
  with assms show ?thesis
    by (simp add: SaveWithGroups_def os_WriteFile_def os_Stat_def os_Rename_def Let_def)
next
  case (Some old)
  show ?thesis
  proof (cases "write_bak flt")
    case WriteOk
    with assms Some show ?thesis
      by (simp add: SaveWithGroups_def os_WriteFile_def os_Stat_def os_Rename_def
          os_ReadFile_def copyFile_def Let_def)
  next
    case WriteFailUntouched
    with assms Some show ?thesis
      by (simp add: SaveWithGroups_def os_WriteFile_def os_Stat_def os_Rename_def
          os_ReadFile_def copyFile_def Let_def)
  next
    case (WriteFailPartial left)
    with assms Some show ?thesis
      by (simp add: SaveWithGroups_def os_WriteFile_def os_Stat_def os_Rename_def
          os_ReadFile_def copyFile_def Let_def)
  qed
qed


text \<open>The definitions that a run on concrete input unfolds.\<close>

lemmas ex_defs = ex_env_def ex_storage_def no_faults_def ex_instance_def ex_snapshot_def
  ex_files_def ex_inst_def ex_group_def ex_group_data_def ex_flags_def

lemmas run_defs = LoadWithGroups_def SaveWithGroups_def os_Stat_def os_ReadFile_def
  os_WriteFile_def os_Rename_def copyFile_def loadInstance_def Let_def toStorageData_def
  toInstanceData_def toGroupData_def tmuxName_def expandTilde_def os_UserHomeDir_def
  strings_HasPrefix_def filepath_Join_def filepath_Clean_def clean_element_def
  UpdateStatus_def ReconnectSessionWithStatus_def GetStoragePath_def NewStorage_def
  filepath_Dir_def


section \<open>Claims\<close>

subsection \<open>C1: saving and loading\<close>

text \<open>
  C1, as the code has it. Let the temporary write and the rename of a save succeed,
  let the file be readable, and let JSON give back the snapshot it was given. Then
  loading after saving yields instances with the same id, title, project path, group
  path, command, tool, status, creation time and session name, and the same group
  records in the same order, provided every instance survives a reload: its project
  path does not start with \<open>~/\<close>, its group path is not empty, and it has no session
  name or the detector pass reports the status it had. (The load expands \<open>~/\<close>,
  fills an empty group path and recomputes the status of an instance with a
  session; see the counterexample below.) The snapshot need not be non-empty.
\<close>

theorem save_load_roundtrip:
  assumes "json_MarshalIndent e (toStorageData e instances gt) = Some jsonData"
    and "json_Unmarshal e jsonData = Some (toStorageData e instances gt)"
    and "write_tmp flt = WriteOk" "\<not> rename_fails flt" "\<not> load_read_fails flt"
    and "\<forall>inst \<in> set instances. survives_reload e inst"
  shows "case save_then_load e flt s instances gt files of
           Inl err \<Rightarrow> False
         | Inr (instances', groups') \<Rightarrow>
             map toInstanceData instances' = map toInstanceData instances \<and>
             groups' = (case gt of None \<Rightarrow> [] | Some tree \<Rightarrow> map toGroupData (GroupList tree))"
proof -
  obtain files' evs where
    sv: "SaveWithGroups e flt s instances gt files = (None, files', evs)" and
    f: "files' (storage_path s) = Some jsonData"
    using SaveWithGroups_success [OF assms(1,3,4)] by blast
  have ld: "fst (LoadWithGroups e flt s files') =
      Inr (map (\<lambda>d. fst (loadInstance e d)) (json_instances (toStorageData e instances gt)),
           json_groups (toStorageData e instances gt))"
    using f assms(5) assms(2) by (simp add: LoadWithGroups_ok)
  have "map toInstanceData (map (\<lambda>d. fst (loadInstance e d)) (map toInstanceData instances)) =
        map toInstanceData instances"
    using assms(6) by (induction instances) (simp_all add: reload_instance)
  then show ?thesis
    by (simp add: save_then_load_def sv ld toStorageData_def)
qed

text \<open>
  An instance bound to the session \<open>agentdeck_api\<close>, in the group \<open>work\<close>, saved
  over an older file and loaded again.
\<close>

theorem save_load_roundtrip_witness:
  "json_MarshalIndent (ex_env [(''snapshot'', (ex_snapshot [ex_instance ''a1'' ''api'' ''/srv/api'' StatusIdle ''agentdeck_api''])\<lparr>json_groups := [ex_group_data]\<rparr>)])
      (toStorageData (ex_env [(''snapshot'', (ex_snapshot [ex_instance ''a1'' ''api'' ''/srv/api'' StatusIdle ''agentdeck_api''])\<lparr>json_groups := [ex_group_data]\<rparr>)])
         [ex_inst ''a1'' ''api'' ''/srv/api'' StatusIdle
            (Some (ReconnectSessionWithStatus ''agentdeck_api'' ''api'' ''/srv/api'' ''claude'' ''idle''))]
         (Some \<lparr>GroupList = [ex_group]\<rparr>))
     = Some ''snapshot'' \<and>
   json_Unmarshal (ex_env [(''snapshot'', (ex_snapshot [ex_instance ''a1'' ''api'' ''/srv/api'' StatusIdle ''agentdeck_api''])\<lparr>json_groups := [ex_group_data]\<rparr>)])
      ''snapshot''
     = Some (toStorageData (ex_env [(''snapshot'', (ex_snapshot [ex_instance ''a1'' ''api'' ''/srv/api'' StatusIdle ''agentdeck_api''])\<lparr>json_groups := [ex_group_data]\<rparr>)])
         [ex_inst ''a1'' ''api'' ''/srv/api'' StatusIdle
            (Some (ReconnectSessionWithStatus ''agentdeck_api'' ''api'' ''/srv/api'' ''claude'' ''idle''))]
         (Some \<lparr>GroupList = [ex_group]\<rparr>)) \<and>
   write_tmp no_faults = WriteOk \<and> \<not> rename_fails no_faults \<and> \<not> load_read_fails no_faults \<and>
   survives_reload (ex_env [(''snapshot'', (ex_snapshot [ex_instance ''a1'' ''api'' ''/srv/api'' StatusIdle ''agentdeck_api''])\<lparr>json_groups := [ex_group_data]\<rparr>)])
     (ex_inst ''a1'' ''api'' ''/srv/api'' StatusIdle
        (Some (ReconnectSessionWithStatus ''agentdeck_api'' ''api'' ''/srv/api'' ''claude'' ''idle''))) \<and>
   save_then_load (ex_env [(''snapshot'', (ex_snapshot [ex_instance ''a1'' ''api'' ''/srv/api'' StatusIdle ''agentdeck_api''])\<lparr>json_groups := [ex_group_data]\<rparr>)])
      no_faults ex_storage
      [ex_inst ''a1'' ''api'' ''/srv/api'' StatusIdle
         (Some (ReconnectSessionWithStatus ''agentdeck_api'' ''api'' ''/srv/api'' ''claude'' ''idle''))]
      (Some \<lparr>GroupList = [ex_group]\<rparr>) (ex_files ''older'')
     = Inr ([ex_inst ''a1'' ''api'' ''/srv/api'' StatusIdle
               (Some (ReconnectSessionWithStatus ''agentdeck_api'' ''api'' ''/srv/api'' ''claude'' ''idle''))],
            [ex_group_data])"
  using save_load_roundtrip [where
      e = "ex_env [(''snapshot'', (ex_snapshot [ex_instance ''a1'' ''api'' ''/srv/api'' StatusIdle ''agentdeck_api''])\<lparr>json_groups := [ex_group_data]\<rparr>)]"
      and instances = "[ex_inst ''a1'' ''api'' ''/srv/api'' StatusIdle
         (Some (ReconnectSessionWithStatus ''agentdeck_api'' ''api'' ''/srv/api'' ''claude'' ''idle''))]"
      and gt = "Some \<lparr>GroupList = [ex_group]\<rparr>" and jsonData = "''snapshot''"
      and flt = no_faults and s = ex_storage and files = "ex_files ''older''"]
  by (simp add: ex_defs run_defs survives_reload_def save_then_load_def)

text \<open>
  C1 as stated fails: the snapshot of one instance with the project path \<open>~/proj\<close>
  and no session, saved with no failure and loaded again with the home directory
  \<open>/home/u\<close>, comes back with the project path \<open>/home/u/proj\<close>.
\<close>

theorem tilde_path_changes_on_reload:
  "save_then_load (ex_env [(''snapshot'', ex_snapshot [ex_instance ''a1'' ''proj'' ''~/proj'' StatusIdle []])])
      no_faults ex_storage [ex_inst ''a1'' ''proj'' ''~/proj'' StatusIdle None] None (ex_files ''older'')
     = Inr ([ex_inst ''a1'' ''proj'' ''/home/u/proj'' StatusIdle None], []) \<and>
   ProjectPath (ex_inst ''a1'' ''proj'' ''~/proj'' StatusIdle None) = ''~/proj'' \<and>
   ProjectPath (ex_inst ''a1'' ''proj'' ''/home/u/proj'' StatusIdle None) = ''/home/u/proj''"
  by (simp add: ex_defs run_defs save_then_load_def)

subsection \<open>C2: the atomic write\<close>



subsection \<open>C3 and C4: loading a missing and an unparsable file\<close>



text \<open>
  C4. When the canonical file exists and can be read but does not parse as a
  snapshot, load returns the parse error (failed to unmarshal JSON); all it does is
  ask for the canonical file and read it, and whatever the backup file holds, or
  whether there is one, makes no difference to the result.
\<close>

theorem load_unparsable_is_parse_error:
  assumes "files (storage_path s) = Some content" "\<not> load_read_fails flt"
    "json_Unmarshal e content = None"
  shows "LoadWithGroups e flt s files =
           (Inl FailedToUnmarshalJSON, [EvStat (storage_path s), EvReadFile (storage_path s)]) \<and>
         LoadWithGroups e flt s (files(storage_path s @ ''.bak'' := backup)) =
           LoadWithGroups e flt s files"
  using assms
  by (simp add: LoadWithGroups_def os_Stat_def os_ReadFile_def)

text \<open>A canonical file cut short, beside a good backup.\<close>

theorem load_unparsable_is_parse_error_witness:
  "[''/home/u/.agent-deck/sessions.json'' \<mapsto> ''{instances: ['',
    ''/home/u/.agent-deck/sessions.json.bak'' \<mapsto> ''good'']
      (storage_path ex_storage) = Some ''{instances: ['' \<and>
   \<not> load_read_fails no_faults \<and>
   json_Unmarshal (ex_env [(''good'', ex_snapshot [])]) ''{instances: ['' = None \<and>
   LoadWithGroups (ex_env [(''good'', ex_snapshot [])]) no_faults ex_storage
      [''/home/u/.agent-deck/sessions.json'' \<mapsto> ''{instances: ['',
       ''/home/u/.agent-deck/sessions.json.bak'' \<mapsto> ''good'']
     = (Inl FailedToUnmarshalJSON,
        [EvStat ''/home/u/.agent-deck/sessions.json'', EvReadFile ''/home/u/.agent-deck/sessions.json''])"
  using load_unparsable_is_parse_error [of
      "[''/home/u/.agent-deck/sessions.json'' \<mapsto> ''{instances: ['',
        ''/home/u/.agent-deck/sessions.json.bak'' \<mapsto> ''good'']"
      ex_storage "''{instances: [''" no_faults "ex_env [(''good'', ex_snapshot [])]"]
  by (simp add: ex_storage_def no_faults_def ex_env_def)

subsection \<open>C5 and C6: remove and add\<close>




text \<open>
  C6. Once the storage is initialised and the sessions are loaded, add does not
  add when an instance of the loaded list has exactly the project path given: it
  reports the first such instance as already existing, creates no instance, exits
  (with status 0) before anything is saved, and leaves the files as they were.
\<close>

theorem add_existing_path_not_added:
  assumes "NewStorage e flt = (Inr s, evs0)"
    "LoadWithGroups e flt s files = (Inr (instances, groups), evs1)"
    "inst \<in> set instances" "ProjectPath inst = path"
  shows "\<exists>dup. dup \<in> set instances \<and> ProjectPath dup = path \<and>
           handleAdd e flt flags path files =
             ((0, [MsgAlreadyExists (Title dup) (ID dup)]), files, evs0 @ evs1)"
proof -
  from assms(3,4) obtain dup where
    d: "find (\<lambda>inst. ProjectPath inst = path) instances = Some dup"
    by (cases "find (\<lambda>inst. ProjectPath inst = path) instances") (auto simp: find_None_iff)
  then have "dup \<in> set instances" "ProjectPath dup = path"
    by (auto simp: find_Some_iff)
  moreover have "handleAdd e flt flags path files =
      ((0, [MsgAlreadyExists (Title dup) (ID dup)]), files, evs0 @ evs1)"
    using assms(1,2) d by (simp add: handleAdd_def Let_def)
  ultimately show ?thesis by blast
qed

theorem add_existing_path_not_added_witness:
  "NewStorage (ex_env [(''one'', ex_snapshot [ex_instance ''ab1'' ''one'' ''/srv/one'' StatusIdle []])]) no_faults
     = (Inr ex_storage, [EvMkdirAll ''/home/u/.agent-deck'']) \<and>
   LoadWithGroups (ex_env [(''one'', ex_snapshot [ex_instance ''ab1'' ''one'' ''/srv/one'' StatusIdle []])])
       no_faults ex_storage (ex_files ''one'')
     = (Inr ([ex_inst ''ab1'' ''one'' ''/srv/one'' StatusIdle None], []),
        [EvStat ''/home/u/.agent-deck/sessions.json'', EvReadFile ''/home/u/.agent-deck/sessions.json'']) \<and>
   handleAdd (ex_env [(''one'', ex_snapshot [ex_instance ''ab1'' ''one'' ''/srv/one'' StatusIdle []])])
       no_faults ex_flags ''/srv/one'' (ex_files ''one'')
     = ((0, [MsgAlreadyExists ''one'' ''ab1'']), ex_files ''one'',
        [EvMkdirAll ''/home/u/.agent-deck'', EvStat ''/home/u/.agent-deck/sessions.json'',
         EvReadFile ''/home/u/.agent-deck/sessions.json''])"
proof -
  let ?e = "ex_env [(''one'', ex_snapshot [ex_instance ''ab1'' ''one'' ''/srv/one'' StatusIdle []])]"
  have st: "NewStorage ?e no_faults = (Inr ex_storage, [EvMkdirAll ''/home/u/.agent-deck''])"
    by (simp add: ex_defs run_defs)
  have ld: "LoadWithGroups ?e no_faults ex_storage (ex_files ''one'')
     = (Inr ([ex_inst ''ab1'' ''one'' ''/srv/one'' StatusIdle None], []),
        [EvStat ''/home/u/.agent-deck/sessions.json'', EvReadFile ''/home/u/.agent-deck/sessions.json''])"
    by (simp add: ex_defs run_defs)
  have "ex_inst ''ab1'' ''one'' ''/srv/one'' StatusIdle None
          \<in> set [ex_inst ''ab1'' ''one'' ''/srv/one'' StatusIdle None]"
    "ProjectPath (ex_inst ''ab1'' ''one'' ''/srv/one'' StatusIdle None) = ''/srv/one''"
    by (simp_all add: ex_inst_def)
  from add_existing_path_not_added [OF st ld this, of ex_flags] st ld
  show ?thesis
    by (simp add: ex_inst_def)
qed

subsection \<open>C7: the status handed to the reconnect\<close>

text \<open>
  C7, as the code has it. When the canonical file can be read and parses, a load
  does, after asking for the file and reading it, the following for each persisted
  instance with a session name, in the order of the list and before the detector
  runs on that instance: it reconnects the session with the stored title, project
  path and command and with \<open>statusToString\<close> of the stored status. That string is
  \<open>active\<close> for Running, \<open>waiting\<close> for Waiting and \<open>idle\<close> for Idle, one string
  for each; for Error it is \<open>waiting\<close>, as for Waiting. An instance without a
  session name causes no call.
\<close>

theorem load_reconnects_with_status_string:
  assumes "files (storage_path s) = Some content" "\<not> load_read_fails flt"
    "json_Unmarshal e content = Some data"
  shows "snd (LoadWithGroups e flt s files) =
           [EvStat (storage_path s), EvReadFile (storage_path s)]
             @ concat (map reconnect_events (json_instances data)) \<and>
         statusToString StatusRunning = ''active'' \<and>
         statusToString StatusWaiting = ''waiting'' \<and>
         statusToString StatusIdle = ''idle'' \<and>
         statusToString StatusError = ''waiting''"
  using assms by (simp add: LoadWithGroups_ok snd_loadInstance)

theorem load_reconnects_with_status_string_witness:
  "ex_files ''snapshot'' (storage_path ex_storage) = Some ''snapshot'' \<and>
   \<not> load_read_fails no_faults \<and>
   json_Unmarshal (ex_env [(''snapshot'', ex_snapshot [ex_instance ''a1'' ''api'' ''/srv/api'' StatusRunning ''agentdeck_api''])]) ''snapshot''
     = Some (ex_snapshot [ex_instance ''a1'' ''api'' ''/srv/api'' StatusRunning ''agentdeck_api'']) \<and>
   snd (LoadWithGroups (ex_env [(''snapshot'', ex_snapshot [ex_instance ''a1'' ''api'' ''/srv/api'' StatusRunning ''agentdeck_api''])])
          no_faults ex_storage (ex_files ''snapshot''))
     = [EvStat ''/home/u/.agent-deck/sessions.json'', EvReadFile ''/home/u/.agent-deck/sessions.json'',
        EvReconnect ''agentdeck_api'' ''api'' ''/srv/api'' ''claude'' ''active'',
        EvEnableMouseMode ''agentdeck_api'', EvUpdateStatus ''agentdeck_api'']"
  using load_reconnects_with_status_string [of
      "ex_files ''snapshot''" ex_storage "''snapshot''" no_faults
      "ex_env [(''snapshot'', ex_snapshot [ex_instance ''a1'' ''api'' ''/srv/api'' StatusRunning ''agentdeck_api''])]"
      "ex_snapshot [ex_instance ''a1'' ''api'' ''/srv/api'' StatusRunning ''agentdeck_api'']"]
  by (simp add: ex_defs reconnect_events_def)

text \<open>
  C7 as stated fails: an instance persisted with the status Error and an instance
  persisted with the status Waiting are reconnected with the same prior status,
  \<open>waiting\<close>; the Error is not handed over.
\<close>

theorem error_status_reconnects_as_waiting:
  "snd (LoadWithGroups (ex_env [(''snapshot'', ex_snapshot [ex_instance ''a1'' ''api'' ''/srv/api'' StatusError ''agentdeck_api''])])
          no_faults ex_storage (ex_files ''snapshot''))
     = [EvStat ''/home/u/.agent-deck/sessions.json'', EvReadFile ''/home/u/.agent-deck/sessions.json'',
        EvReconnect ''agentdeck_api'' ''api'' ''/srv/api'' ''claude'' ''waiting'',
        EvEnableMouseMode ''agentdeck_api'', EvUpdateStatus ''agentdeck_api''] \<and>
   snd (LoadWithGroups (ex_env [(''snapshot'', ex_snapshot [ex_instance ''a1'' ''api'' ''/srv/api'' StatusWaiting ''agentdeck_api''])])
          no_faults ex_storage (ex_files ''snapshot''))
     = [EvStat ''/home/u/.agent-deck/sessions.json'', EvReadFile ''/home/u/.agent-deck/sessions.json'',
        EvReconnect ''agentdeck_api'' ''api'' ''/srv/api'' ''claude'' ''waiting'',
        EvEnableMouseMode ''agentdeck_api'', EvUpdateStatus ''agentdeck_api'']"
  by (simp add: ex_defs run_defs)

subsection \<open>C8: the storage path\<close>

text \<open>
  C8, as the code has it. The storage path is the home directory joined with
  \<open>.agent-deck\<close> and \<open>sessions.json\<close>, and the home directory is the value of
  \<open>HOME\<close>: setting, changing or unsetting any other environment variable leaves the
  storage path as it was. No profile selector is read and there is no alternate
  location.
\<close>

theorem storage_path_from_home_only:
  "k \<noteq> ''HOME'' \<Longrightarrow>
   GetStoragePath (e\<lparr>environ := (environ e)(k := v)\<rparr>) = GetStoragePath e \<and>
   GetStoragePath e =
     (case os_UserHomeDir e of
        None \<Rightarrow> Inl FailedToGetHomeDirectory
      | Some home \<Rightarrow> Inr (filepath_Join [home, ''.agent-deck'', ''sessions.json'']))"
  by (simp add: GetStoragePath_def os_UserHomeDir_other_var)

theorem storage_path_from_home_only_witness:
  "''AGENTDECK_PROFILE'' \<noteq> ''HOME'' \<and>
   GetStoragePath ((ex_env [])\<lparr>environ := (environ (ex_env []))(''AGENTDECK_PROFILE'' := Some ''test'')\<rparr>)
     = GetStoragePath (ex_env [])"
  using storage_path_from_home_only [of "''AGENTDECK_PROFILE''" "ex_env []" "Some ''test''"]
  by simp

text \<open>
  C8 as stated fails: with the home directory \<open>/home/u\<close> and a profile selector
  set in the environment, the storage path is the production path under the home
  directory, the same as without the selector.
\<close>

theorem profile_selector_not_redirected:
  "GetStoragePath ((ex_env [])\<lparr>environ := (environ (ex_env []))(''AGENTDECK_PROFILE'' \<mapsto> ''test'')\<rparr>)
     = Inr ''/home/u/.agent-deck/sessions.json'' \<and>
   GetStoragePath (ex_env []) = Inr ''/home/u/.agent-deck/sessions.json''"
  by (simp add: GetStoragePath_def os_UserHomeDir_def ex_env_def filepath_Join_def
      filepath_Clean_def clean_element_def)

subsection \<open>C9: the tilde of a project path\<close>

text \<open>
  C9, as the code has it. When the canonical file can be read and parses, the
  project path of every loaded instance is \<open>expandTilde\<close> of the persisted one. A
  path that starts with \<open>~/\<close> becomes, when the home directory is known, the home
  directory joined with the rest of the path and cleaned, which is an absolute path
  when the home directory is one. Every other path is returned unchanged: a path
  without a tilde, but also \<open>~\<close> alone, a tilde followed by anything but a slash,
  and any path when the home directory is not known.
\<close>

theorem load_expands_tilde_slash:
  assumes "files (storage_path s) = Some content" "\<not> load_read_fails flt"
    "json_Unmarshal e content = Some data"
  shows "(case fst (LoadWithGroups e flt s files) of
            Inl err \<Rightarrow> False
          | Inr (instances, groups) \<Rightarrow>
              map ProjectPath instances =
                map (\<lambda>d. expandTilde e (json_project_path d)) (json_instances data)) \<and>
         expandTilde e p =
           (if strings_HasPrefix p ''~/'' then
              (case os_UserHomeDir e of
                 Some home \<Rightarrow> filepath_Join [home, drop 2 p]
               | None \<Rightarrow> p)
            else p) \<and>
         (strings_HasPrefix p ''~/'' \<and> os_UserHomeDir e = Some home \<and> hd home = CHR ''/''
            \<longrightarrow> hd (expandTilde e p) = CHR ''/'')"
proof -
  have "hd (expandTilde e p) = CHR ''/''"
    if "strings_HasPrefix p ''~/''" "os_UserHomeDir e = Some home" "hd home = CHR ''/''"
    using that os_UserHomeDir_not_empty [of e home] filepath_Join_rooted [of home "drop 2 p"]
    by (simp add: expandTilde_def)
  then show ?thesis
    using assms
    by (simp add: LoadWithGroups_ok ProjectPath_loadInstance comp_def expandTilde_def)
qed

text \<open>
  The persisted path \<open>~/proj\<close> is loaded as \<open>/home/u/proj\<close>; the path
  \<open>/srv/api\<close> is returned as it is.
\<close>

theorem load_expands_tilde_slash_witness:
  "ex_files ''snapshot'' (storage_path ex_storage) = Some ''snapshot'' \<and>
   \<not> load_read_fails no_faults \<and>
   json_Unmarshal (ex_env [(''snapshot'', ex_snapshot [ex_instance ''a1'' ''proj'' ''~/proj'' StatusIdle []])]) ''snapshot''
     = Some (ex_snapshot [ex_instance ''a1'' ''proj'' ''~/proj'' StatusIdle []]) \<and>
   (case fst (LoadWithGroups (ex_env [(''snapshot'', ex_snapshot [ex_instance ''a1'' ''proj'' ''~/proj'' StatusIdle []])])
                no_faults ex_storage (ex_files ''snapshot'')) of
      Inl err \<Rightarrow> False
    | Inr (instances, groups) \<Rightarrow> map ProjectPath instances = [''/home/u/proj'']) \<and>
   expandTilde (ex_env [(''snapshot'', ex_snapshot [ex_instance ''a1'' ''proj'' ''~/proj'' StatusIdle []])]) ''/srv/api''
     = ''/srv/api''"
  using load_expands_tilde_slash [where
      files = "ex_files ''snapshot''" and s = ex_storage and content = "''snapshot''"
      and flt = no_faults
      and e = "ex_env [(''snapshot'', ex_snapshot [ex_instance ''a1'' ''proj'' ''~/proj'' StatusIdle []])]"
      and data = "ex_snapshot [ex_instance ''a1'' ''proj'' ''~/proj'' StatusIdle []]"
      and p = "''/srv/api''" and home = "''/home/u''"]
  by (simp add: ex_defs run_defs)

text \<open>
  C9 as stated fails: the persisted project path \<open>~\<close> begins with a tilde, and
  with the home directory \<open>/home/u\<close> it is loaded as \<open>~\<close>: the tilde is not
  replaced and the path is not absolute.
\<close>

theorem bare_tilde_not_expanded:
  "(case fst (LoadWithGroups (ex_env [(''snapshot'', ex_snapshot [ex_instance ''a1'' ''home'' ''~'' StatusIdle []])])
                no_faults ex_storage (ex_files ''snapshot'')) of
      Inl err \<Rightarrow> False
    | Inr (instances, groups) \<Rightarrow> map ProjectPath instances = [''~''])"
  by (simp add: ex_defs run_defs)

subsection \<open>C10: the tool of a command\<close>


end
